theory Spec2Isabelle
  imports Main "HOL-Library.Stream"
begin

section \<open>Python values\<close>

text \<open>
  The values that travel through \<^verbatim>\<open>jsonrpc.py\<close>: what \<^verbatim>\<open>response.json()\<close> decodes
  (null, booleans, numbers, strings, arrays, objects) and what a caller passes as
  arguments. A \<^verbatim>\<open>dict\<close> is an association list in insertion order; its keys are
  strings, as the keys of a JSON object and of a keyword dictionary are. The positional
  arguments of a call reach the code as a \<^verbatim>\<open>tuple\<close>.
\<close>

datatype pyfloat = Finite int int | Infinite bool | NaN

datatype pyval =
    PNone
  | PBool bool
  | PInt int
  | PFloat pyfloat
  | PStr string
  | PList "pyval list"
  | PTuple "pyval list"
  | PDict "(string \<times> pyval) list"

text \<open>\<^verbatim>\<open>bool(v)\<close>: what \<^verbatim>\<open>if v:\<close>, \<^verbatim>\<open>not v\<close>, \<^verbatim>\<open>a and b\<close> and \<^verbatim>\<open>a or b\<close> test.
  \<open>Finite m e\<close> is the float \<open>m * 2 ^ e\<close>.\<close>

fun truthy :: "pyval \<Rightarrow> bool" where
  "truthy PNone = False"
| "truthy (PBool b) = b"
| "truthy (PInt i) = (i \<noteq> 0)"
| "truthy (PFloat (Finite m e)) = (m \<noteq> 0)"
| "truthy (PFloat (Infinite s)) = True"
| "truthy (PFloat NaN) = True"
| "truthy (PStr s) = (s \<noteq> [])"
| "truthy (PList xs) = (xs \<noteq> [])"
| "truthy (PTuple xs) = (xs \<noteq> [])"
| "truthy (PDict d) = (d \<noteq> [])"

text \<open>\<^verbatim>\<open>type(v).__name__\<close>, as it appears in the interpreter's messages.\<close>

fun type_name :: "pyval \<Rightarrow> string" where
  "type_name PNone = ''NoneType''"
| "type_name (PBool b) = ''bool''"
| "type_name (PInt i) = ''int''"
| "type_name (PFloat f) = ''float''"
| "type_name (PStr s) = ''str''"
| "type_name (PList xs) = ''list''"
| "type_name (PTuple xs) = ''tuple''"
| "type_name (PDict d) = ''dict''"

text \<open>\<^verbatim>\<open>isinstance(v, dict)\<close> and \<^verbatim>\<open>isinstance(v, collections.Mapping)\<close> agree on these
  values: only a \<^verbatim>\<open>dict\<close> is a mapping. The interpreter is one in which the module
  loads, so \<^verbatim>\<open>asyncio.coroutine\<close> and \<^verbatim>\<open>collections.Mapping\<close> exist.\<close>

fun is_Mapping :: "pyval \<Rightarrow> bool" where
  "is_Mapping (PDict d) = True"
| "is_Mapping v = False"

subsection \<open>Dictionary operations\<close>

type_synonym pydict = "(string \<times> pyval) list"

definition keys :: "pydict \<Rightarrow> string set" where
  "keys d = fst ` set d"

text \<open>\<^verbatim>\<open>k in d\<close>\<close>

definition dict_contains :: "pydict \<Rightarrow> string \<Rightarrow> bool" where
  "dict_contains d k = (map_of d k \<noteq> None)"

text \<open>\<^verbatim>\<open>d.get(k, default)\<close>\<close>

definition dict_get :: "pydict \<Rightarrow> string \<Rightarrow> pyval \<Rightarrow> pyval" where
  "dict_get d k dflt = (case map_of d k of None \<Rightarrow> dflt | Some v \<Rightarrow> v)"

text \<open>\<^verbatim>\<open>d[k] = v\<close>: an existing key keeps its place, a new key goes last.\<close>

fun dict_set :: "pydict \<Rightarrow> string \<Rightarrow> pyval \<Rightarrow> pydict" where
  "dict_set [] k v = [(k, v)]"
| "dict_set ((k', v') # d) k v = (if k' = k then (k, v) # d else (k', v') # dict_set d k v)"

text \<open>\<^verbatim>\<open>d.pop(k, default)\<close>: the value removed (or the default) and the dictionary left.\<close>

definition dict_pop :: "pydict \<Rightarrow> string \<Rightarrow> pyval \<Rightarrow> pyval \<times> pydict" where
  "dict_pop d k dflt =
     (case map_of d k of
        None \<Rightarrow> (dflt, d)
      | Some v \<Rightarrow> (v, filter (\<lambda>(k', _). k' \<noteq> k) d))"

section \<open>Exceptions\<close>

text \<open>
  What the collaborators (the HTTP client, the JSON decoder) raise is classified by the
  \<^verbatim>\<open>except\<close> clause that would catch it; the string is the exception's own text.
\<close>

datatype raised =
    ClientResponseError string
  | ClientOSError string
  | ValueError string
  | OtherException string

text \<open>
  The arguments of a \<^verbatim>\<open>TransportError\<close>. The source formats the first argument with
  \<^verbatim>\<open>%\<close>; the model keeps the format's operands:
  \<^item> \<open>Error_calling_method name exc\<close> is \<^verbatim>\<open>('Error calling method %r' % name, exc)\<close>,
  \<^item> \<open>HTTP status reason\<close> is \<^verbatim>\<open>('HTTP %d %s' % (status, reason),)\<close>,
  \<^item> \<open>Cannot_deserialize exc\<close> is \<^verbatim>\<open>('Cannot deserialize response body', exc)\<close>.
\<close>

datatype transport_args =
    Error_calling_method string raised
  | HTTP int string
  | Cannot_deserialize raised

text \<open>
  \<open>ProtocolError args\<close> carries the constructor's argument tuple. \<open>AttributeError\<close>,
  \<open>KeyError\<close> and \<open>TypeError\<close> carry their message; \<open>Propagated\<close> is a collaborator's
  exception that no \<^verbatim>\<open>except\<close> clause of the source catches.
\<close>

datatype exc =
    TransportError transport_args
  | ProtocolError "pyval list"
  | AttributeError string
  | KeyError string
  | TypeError string
  | Propagated raised

text \<open>\<^verbatim>\<open>v.name\<close> on a value that has no such attribute.\<close>

definition no_attribute :: "pyval \<Rightarrow> string \<Rightarrow> exc" where
  "no_attribute v name =
     AttributeError ([CHR 0x27] @ type_name v @ [CHR 0x27] @ '' object has no attribute ''
                     @ [CHR 0x27] @ name @ [CHR 0x27])"

text \<open>\<^verbatim>\<open>d[k]\<close>\<close>

definition dict_getitem :: "pydict \<Rightarrow> string \<Rightarrow> exc + pyval" where
  "dict_getitem d k = (case map_of d k of None \<Rightarrow> Inl (KeyError k) | Some v \<Rightarrow> Inr v)"

text \<open>\<^verbatim>\<open>v.get(k, default)\<close> on any value: only a \<^verbatim>\<open>dict\<close> has the method.\<close>

fun method_get :: "pyval \<Rightarrow> string \<Rightarrow> pyval \<Rightarrow> exc + pyval" where
  "method_get (PDict d) k dflt = Inr (dict_get d k dflt)"
| "method_get v k dflt = Inl (no_attribute v ''get'')"

section \<open>\<^verbatim>\<open>Server.parse_result\<close>\<close>

text \<open>
  \<^verbatim>\<open>
  if not isinstance(result, dict):
      raise ProtocolError('Response is not a dictionary')
  if result.get('error'):
      code = result['error'].get('code', '')
      message = result['error'].get('message', '')
      raise ProtocolError(code, message, result)
  elif 'result' not in result:
      raise ProtocolError('Response without a result field')
  else:
      return result['result']
  \<close>
\<close>

definition parse_result :: "pyval \<Rightarrow> exc + pyval" where
  "parse_result result =
     (case result of
        PDict d \<Rightarrow>
          if truthy (dict_get d ''error'' PNone) then
            (case dict_getitem d ''error'' of
               Inl e \<Rightarrow> Inl e
             | Inr err \<Rightarrow>
                 (case method_get err ''code'' (PStr '''') of
                    Inl e \<Rightarrow> Inl e
                  | Inr code \<Rightarrow>
                      (case method_get err ''message'' (PStr '''') of
                         Inl e \<Rightarrow> Inl e
                       | Inr message \<Rightarrow> Inl (ProtocolError [code, message, result]))))
          else if \<not> dict_contains d ''result'' then
            Inl (ProtocolError [PStr ''Response without a result field''])
          else dict_getitem d ''result''
      | _ \<Rightarrow> Inl (ProtocolError [PStr ''Response is not a dictionary'']))"

section \<open>The environment of a call\<close>

text \<open>
  The HTTP client and the random number generator are collaborators of the source, so
  their answers are inputs of the model. A \<open>response\<close> is what \<^verbatim>\<open>session.post\<close> hands
  back: its status and reason phrase, what \<^verbatim>\<open>response.json()\<close> will do (raise, or
  return the decoded body) and what \<^verbatim>\<open>response.release()\<close> will do (raise, or complete).
\<close>

record response =
  status :: int
  reason :: string
  json :: "raised + pyval"
  release :: "raised option"

datatype posted = Raises raised | Returns response

text \<open>What the code does to its collaborators, in order: the observable side of a call.\<close>

datatype 'b event = Post 'b | Json | Release

text \<open>
  The world threaded through the calls of one session: \<open>rng\<close> is the generator's
  entropy still to come, \<open>net\<close> the outcomes of the posts still to come, \<open>trace\<close> the
  events so far. \<open>'b\<close> is the type of a serialized body.
\<close>

record 'b world =
  rng :: "nat stream"
  net :: "posted stream"
  trace :: "'b event list"

text \<open>\<^verbatim>\<open>sys.maxsize\<close> of a 64-bit interpreter.\<close>

definition sys_maxsize :: int where
  "sys_maxsize = 2 ^ 63 - 1"

text \<open>
  \<^verbatim>\<open>random.randint(a, b)\<close> by its contract: some integer of \<open>[a, b]\<close>, chosen by the
  generator's next output, which is consumed.
\<close>

definition randint :: "int \<Rightarrow> int \<Rightarrow> 'b world \<Rightarrow> int \<times> 'b world" where
  "randint a b w = (a + int (shd (rng w)) mod (b - a + 1), w\<lparr>rng := stl (rng w)\<rparr>)"

text \<open>\<^verbatim>\<open>self.request(data=request_body)\<close>, the partial application of \<^verbatim>\<open>session.post\<close>.\<close>

definition request :: "'b \<Rightarrow> 'b world \<Rightarrow> posted \<times> 'b world" where
  "request body w = (shd (net w), w\<lparr>net := stl (net w), trace := trace w @ [Post body]\<rparr>)"

text \<open>\<^verbatim>\<open>response.json()\<close> and \<^verbatim>\<open>response.release()\<close>\<close>

definition response_json :: "response \<Rightarrow> 'b world \<Rightarrow> (raised + pyval) \<times> 'b world" where
  "response_json r w = (json r, w\<lparr>trace := trace w @ [Json]\<rparr>)"

definition response_release :: "response \<Rightarrow> 'b world \<Rightarrow> raised option \<times> 'b world" where
  "response_release r w = (release r, w\<lparr>trace := trace w @ [Release]\<rparr>)"

section \<open>\<^verbatim>\<open>Server\<close>\<close>

text \<open>
  Of a \<^verbatim>\<open>Server\<close> the model keeps the overridable encoder \<^verbatim>\<open>dumps\<close>; the session and the
  URL are in the world's \<open>net\<close>.
\<close>

record 'b server =
  dumps :: "pyval \<Rightarrow> 'b"

text \<open>
  The dictionary that \<^verbatim>\<open>serialize\<close> builds before encoding it:
  \<^verbatim>\<open>
  data = {'jsonrpc': '2.0', 'method': method_name}
  if params:
      data['params'] = params
  if not is_notification:
      data['id'] = random.randint(1, sys.maxsize)
  \<close>
\<close>

definition serialize_data :: "string \<Rightarrow> pyval \<Rightarrow> pyval \<Rightarrow> 'b world \<Rightarrow> pydict \<times> 'b world" where
  "serialize_data method_name params is_notification w =
     (let data = [(''jsonrpc'', PStr ''2.0''), (''method'', PStr method_name)];
          data = (if truthy params then dict_set data ''params'' params else data)
      in if \<not> truthy is_notification then
           (let (r, w) = randint 1 sys_maxsize w in (dict_set data ''id'' (PInt r), w))
         else (data, w))"

text \<open>\<^verbatim>\<open>return self.dumps(data)\<close>\<close>

definition serialize :: "'b server \<Rightarrow> string \<Rightarrow> pyval \<Rightarrow> pyval \<Rightarrow> 'b world \<Rightarrow> 'b \<times> 'b world" where
  "serialize self method_name params is_notification w =
     (let (data, w) = serialize_data method_name params is_notification w
      in (dumps self (PDict data), w))"

text \<open>
  \<^verbatim>\<open>
  request_body = self.serialize(method_name, params, is_notification)
  try:
      response = yield from self.request(data=request_body)
  except (aiohttp.ClientResponseError, aiohttp.ClientOSError) as exc:
      raise TransportError('Error calling method %r' % method_name, exc)
  try:
      if response.status != 200:
          raise TransportError('HTTP %d %s' % (response.status, response.reason))
      if not is_notification:
          try:
              parsed = yield from response.json()
          except ValueError as value_error:
              raise TransportError('Cannot deserialize response body', value_error)
          return self.parse_result(parsed)
  finally:
      yield from response.release()
  \<close>
  A notification falls off the end of the function and returns \<^verbatim>\<open>None\<close>. An exception
  raised in the \<^verbatim>\<open>finally\<close> block replaces the outcome of the \<^verbatim>\<open>try\<close> block.
\<close>

definition send_request ::
  "'b server \<Rightarrow> string \<Rightarrow> pyval \<Rightarrow> pyval \<Rightarrow> 'b world \<Rightarrow> (exc + pyval) \<times> 'b world" where
  "send_request self method_name is_notification params w =
     (let (request_body, w) = serialize self method_name params is_notification w;
          (posted, w) = request request_body w
      in case posted of
           Raises e \<Rightarrow>
             (case e of
                ClientResponseError _ \<Rightarrow> (Inl (TransportError (Error_calling_method method_name e)), w)
              | ClientOSError _ \<Rightarrow> (Inl (TransportError (Error_calling_method method_name e)), w)
              | _ \<Rightarrow> (Inl (Propagated e), w))
         | Returns response \<Rightarrow>
             (let (outcome, w) =
                    (if status response \<noteq> 200 then
                       (Inl (TransportError (HTTP (status response) (reason response))), w)
                     else if \<not> truthy is_notification then
                       (let (decoded, w) = response_json response w
                        in case decoded of
                             Inl (ValueError t) \<Rightarrow>
                               (Inl (TransportError (Cannot_deserialize (ValueError t))), w)
                           | Inl e \<Rightarrow> (Inl (Propagated e), w)
                           | Inr parsed \<Rightarrow> (parse_result parsed, w))
                     else (Inr PNone, w));
                  (released, w) = response_release response w
              in case released of
                   Some e \<Rightarrow> (Inl (Propagated e), w)
                 | None \<Rightarrow> (outcome, w)))"

text \<open>
  \<^verbatim>\<open>Server.__request\<close>, reached through a \<^verbatim>\<open>Method\<close> with the tuple of positional
  arguments and the dictionary of keyword arguments:
  \<^verbatim>\<open>
  is_notification = kwargs.pop('_notification', False)
  if args and kwargs:
      raise ProtocolError('JSON-RPC spec forbids mixing arguments and keyword arguments')
  if len(args) == 1 and isinstance(args[0], collections.Mapping):
      args = dict(args[0])
  return self.send_request(method_name, is_notification, args or kwargs)
  \<close>
\<close>

definition Server_request ::
  "'b server \<Rightarrow> string \<Rightarrow> pyval list \<Rightarrow> pydict \<Rightarrow> 'b world \<Rightarrow> (exc + pyval) \<times> 'b world" where
  "Server_request self method_name args kwargs w =
     (let (is_notification, kwargs) = dict_pop kwargs ''_notification'' (PBool False)
      in if truthy (PTuple args) \<and> truthy (PDict kwargs) then
           (Inl (ProtocolError
                   [PStr ''JSON-RPC spec forbids mixing arguments and keyword arguments'']), w)
         else
           (let args = (case args of [PDict m] \<Rightarrow> PDict m | _ \<Rightarrow> PTuple args)
            in send_request self method_name is_notification
                 (if truthy args then args else PDict kwargs) w))"

section \<open>\<^verbatim>\<open>Method\<close>\<close>

text \<open>\<^verbatim>\<open>s.startswith(p)\<close>\<close>

definition startswith :: "string \<Rightarrow> string \<Rightarrow> bool" where
  "startswith s p = (take (length p) s = p)"

text \<open>\<^verbatim>\<open>AttributeError("invalid attribute '%s'" % method_name)\<close>\<close>

definition invalid_attribute :: "string \<Rightarrow> exc" where
  "invalid_attribute name = AttributeError (''invalid attribute '' @ [CHR 0x27] @ name @ [CHR 0x27])"

text \<open>The two private fields of a \<^verbatim>\<open>Method\<close>.\<close>

record 'b rpc_method =
  Method_request_method ::
    "string \<Rightarrow> pyval list \<Rightarrow> pydict \<Rightarrow> 'b world \<Rightarrow> (exc + pyval) \<times> 'b world"
  Method_method_name :: string

text \<open>\<^verbatim>\<open>Method.__init__\<close>: the constructor, which may raise.\<close>

definition Method_init ::
  "(string \<Rightarrow> pyval list \<Rightarrow> pydict \<Rightarrow> 'b world \<Rightarrow> (exc + pyval) \<times> 'b world) \<Rightarrow> string
     \<Rightarrow> exc + 'b rpc_method" where
  "Method_init request_method name =
     (if startswith name ''_'' then Inl (invalid_attribute name)
      else Inr \<lparr>Method_request_method = request_method, Method_method_name = name\<rparr>)"

text \<open>\<^verbatim>\<open>Method.__getattr__\<close>\<close>

definition Method_getattr :: "'b rpc_method \<Rightarrow> string \<Rightarrow> exc + 'b rpc_method" where
  "Method_getattr self name =
     (if startswith name ''_'' then Inl (invalid_attribute name)
      else Method_init (Method_request_method self) (Method_method_name self @ ''.'' @ name))"
text \<open>
  \<^verbatim>\<open>Method.__call__\<close>, declared \<^verbatim>\<open>def __call__(self, *args, **kwargs)\<close>. Binding the arguments
  comes before the body: the proxy itself fills the parameter \<^verbatim>\<open>self\<close>, so a keyword
  argument named \<^verbatim>\<open>self\<close> makes the call raise \<^verbatim>\<open>TypeError\<close> and the body never runs. Every
  other keyword goes to \<^verbatim>\<open>kwargs\<close>. The message is that of the interpreters in which the
  module loads: \<^verbatim>\<open>__call__() got multiple values for argument 'self'\<close>.
\<close>

definition multiple_values :: "string \<Rightarrow> string \<Rightarrow> exc" where
  "multiple_values f name =
     TypeError (f @ ''() got multiple values for argument '' @ [CHR 0x27] @ name @ [CHR 0x27])"

definition Method_call ::
  "'b rpc_method \<Rightarrow> pyval list \<Rightarrow> pydict \<Rightarrow> 'b world \<Rightarrow> (exc + pyval) \<times> 'b world" where
  "Method_call self args kwargs w =
     (if dict_contains kwargs ''self'' then (Inl (multiple_values ''__call__'' ''self''), w)
      else Method_request_method self (Method_method_name self) args kwargs w)"

text \<open>\<^verbatim>\<open>Server.__getattr__\<close>, the hook Python calls for a name the server does not define.\<close>

definition Server_getattr :: "'b server \<Rightarrow> string \<Rightarrow> exc + 'b rpc_method" where
  "Server_getattr self name = Method_init (Server_request self) name"

section \<open>Attribute access\<close>

text \<open>
  Python calls a \<^verbatim>\<open>__getattr__\<close> hook only when the normal lookup of the name fails. The
  normal lookup finds what the source puts on the object, and what the interpreter
  puts on every object.

  On a \<^verbatim>\<open>Server\<close> the source puts \<^verbatim>\<open>session\<close> and \<^verbatim>\<open>request\<close> (set in \<^verbatim>\<open>__init__\<close>), the
  methods of the class, and \<^verbatim>\<open>__request\<close> under its mangled name. On a \<^verbatim>\<open>Method\<close> it puts
  the two private fields under their mangled names and the three methods of the class.
\<close>

definition Server_names :: "string list" where
  "Server_names =
     [''session'', ''request'', ''__init__'', ''send_request'', ''parse_result'', ''dumps'',
      ''serialize'', ''__getattr__'', ''_Server__request'']"

definition Method_names :: "string list" where
  "Method_names =
     [''_Method__request_method'', ''_Method__method_name'', ''__init__'', ''__getattr__'',
      ''__call__'']"

text \<open>
  What an attribute access gives: a proxy; the bound method \<^verbatim>\<open>__call__\<close> of a proxy, which
  is called as the proxy is; or some other attribute that the normal lookup found,
  known here by its name only.
\<close>

datatype 'b obj = Proxy "'b rpc_method" | Bound_call "'b rpc_method" | Other string

text \<open>
  The attributes that the interpreter puts on every object (\<^verbatim>\<open>__class__\<close>, \<^verbatim>\<open>__dict__\<close>,
  \<^verbatim>\<open>__repr__\<close>, ...) depend on its version; the predicate \<open>builtin\<close> that says which names
  they are is a parameter of the model.

  \<^verbatim>\<open>server.name\<close>: an attribute of the server if there is one, the hook otherwise.
\<close>

definition Server_getattribute :: "(string \<Rightarrow> bool) \<Rightarrow> 'b server \<Rightarrow> string \<Rightarrow> exc + 'b obj" where
  "Server_getattribute builtin self name =
     (if name \<in> set Server_names \<or> builtin name then Inr (Other name)
      else map_sum id Proxy (Server_getattr self name))"

text \<open>\<^verbatim>\<open>m.name\<close> for a proxy \<^verbatim>\<open>m\<close>.\<close>

definition Method_getattribute ::
  "(string \<Rightarrow> bool) \<Rightarrow> 'b rpc_method \<Rightarrow> string \<Rightarrow> exc + 'b obj" where
  "Method_getattribute builtin self name =
     (if name = ''__call__'' then Inr (Bound_call self)
      else if name \<in> set Method_names \<or> builtin name then Inr (Other name)
      else map_sum id Proxy (Method_getattr self name))"

section \<open>A caller\<close>

text \<open>
  The caller's expression \<^verbatim>\<open>server.s.s1. ... .sn(*args, **kwargs)\<close>. What an attribute of
  an \<open>Other\<close> object or of a bound method is, and what calling an \<open>Other\<close> object does,
  is decided outside \<^verbatim>\<open>jsonrpc.py\<close> for the most part; there the model answers \<open>Beyond\<close>
  and says nothing. Everywhere else it answers \<open>Within\<close> with what the code does; the
  first exception ends the expression.
\<close>

datatype 'a within = Beyond | Within 'a

fun getattrs :: "(string \<Rightarrow> bool) \<Rightarrow> 'b obj \<Rightarrow> string list \<Rightarrow> (exc + 'b obj) within" where
  "getattrs builtin x [] = Within (Inr x)"
| "getattrs builtin (Proxy m) (s # ss) =
     (case Method_getattribute builtin m s of
        Inl e \<Rightarrow> Within (Inl e)
      | Inr y \<Rightarrow> getattrs builtin y ss)"
| "getattrs builtin (Bound_call m) (s # ss) = Beyond"
| "getattrs builtin (Other n) (s # ss) = Beyond"

definition proxy ::
  "(string \<Rightarrow> bool) \<Rightarrow> 'b server \<Rightarrow> string \<Rightarrow> string list \<Rightarrow> (exc + 'b obj) within" where
  "proxy builtin self s ss =
     (case Server_getattribute builtin self s of
        Inl e \<Rightarrow> Within (Inl e)
      | Inr x \<Rightarrow> getattrs builtin x ss)"

text \<open>\<^verbatim>\<open>x(*args, **kwargs)\<close>: calling the bound \<^verbatim>\<open>__call__\<close> of a proxy is calling the proxy.\<close>

fun invoke ::
  "'b obj \<Rightarrow> pyval list \<Rightarrow> pydict \<Rightarrow> 'b world \<Rightarrow> ((exc + pyval) \<times> 'b world) within" where
  "invoke (Proxy m) args kwargs w = Within (Method_call m args kwargs w)"
| "invoke (Bound_call m) args kwargs w = Within (Method_call m args kwargs w)"
| "invoke (Other n) args kwargs w = Beyond"

definition call ::
  "(string \<Rightarrow> bool) \<Rightarrow> 'b server \<Rightarrow> string \<Rightarrow> string list \<Rightarrow> pyval list \<Rightarrow> pydict \<Rightarrow> 'b world
     \<Rightarrow> ((exc + pyval) \<times> 'b world) within" where
  "call builtin self s ss args kwargs w =
     (case proxy builtin self s ss of
        Beyond \<Rightarrow> Beyond
      | Within (Inl e) \<Rightarrow> Within (Inl e, w)
      | Within (Inr x) \<Rightarrow> invoke x args kwargs w)"

text \<open>The segments joined with dots, as \<^verbatim>\<open>'.'.join(segments)\<close> would.\<close>

fun dot_join :: "string list \<Rightarrow> string" where
  "dot_join [] = []"
| "dot_join [s] = s"
| "dot_join (s # t # ss) = s @ ''.'' @ dot_join (t # ss)"

section \<open>Observing a call\<close>

text \<open>The events that a step from world \<open>w\<close> to world \<open>w'\<close> adds to the trace.\<close>

definition events :: "'b world \<Rightarrow> 'b world \<Rightarrow> 'b event list" where
  "events w w' = drop (length (trace w)) (trace w')"

text \<open>
  Concrete collaborators for the examples: an encoder that hands the data on as it is
  (so that a \<open>Post\<close> event shows what was encoded), a response of status 200 with a
  decodable body, a fresh session with a given generator in which every post gets the
  same outcome, a proxy of a server as \<^verbatim>\<open>Server.__getattr__\<close> builds it, and the names
  that CPython 3.4 puts on every instance of a class declared with \<^verbatim>\<open>class C(object)\<close>.
\<close>

definition plain :: "pyval server" where
  "plain = \<lparr>dumps = (\<lambda>data. data)\<rparr>"

definition ok :: "pyval \<Rightarrow> response" where
  "ok body = \<lparr>status = 200, reason = ''OK'', json = Inr body, release = None\<rparr>"

definition session :: "nat stream \<Rightarrow> posted \<Rightarrow> pyval world" where
  "session r p = \<lparr>rng = r, net = sconst p, trace = []\<rparr>"

definition proxy_of :: "'b server \<Rightarrow> string \<Rightarrow> 'b rpc_method" where
  "proxy_of self name = \<lparr>Method_request_method = Server_request self, Method_method_name = name\<rparr>"

definition cpython :: "string \<Rightarrow> bool" where
  "cpython name \<longleftrightarrow> name \<in> set
     [''__class__'', ''__delattr__'', ''__dict__'', ''__dir__'', ''__doc__'', ''__eq__'',
      ''__format__'', ''__ge__'', ''__getattribute__'', ''__gt__'', ''__hash__'', ''__init__'',
      ''__le__'', ''__lt__'', ''__module__'', ''__ne__'', ''__new__'', ''__reduce__'',
      ''__reduce_ex__'', ''__repr__'', ''__setattr__'', ''__sizeof__'', ''__str__'',
      ''__subclasshook__'', ''__weakref__'']"

lemmas run_simps =
  call_def proxy_def Server_getattribute_def Method_getattribute_def Server_names_def
  Method_names_def cpython_def Server_getattr_def Method_getattr_def Method_init_def
  Method_call_def multiple_values_def proxy_of_def startswith_def
  Server_request_def dict_pop_def send_request_def serialize_def serialize_data_def
  randint_def sys_maxsize_def request_def response_json_def response_release_def
  session_def plain_def ok_def parse_result_def dict_get_def dict_contains_def dict_getitem_def

section \<open>Dictionaries\<close>

lemma map_of_absent: "k \<notin> keys d \<Longrightarrow> map_of d k = None"
  by (simp add: keys_def map_of_eq_None_iff)

lemma filter_absent: "k \<notin> keys d \<Longrightarrow> filter (\<lambda>(k', _). k' \<noteq> k) d = d"
  by (induction d) (auto simp: keys_def)

lemma dict_pop_absent: "k \<notin> keys d \<Longrightarrow> dict_pop d k v = (v, d)"
  by (simp add: dict_pop_def map_of_absent)

lemma dict_pop_last: "k \<notin> keys d \<Longrightarrow> dict_pop (d @ [(k, v)]) k v' = (v, d)"
  by (simp add: dict_pop_def map_of_absent filter_absent map_add_def)


section \<open>Response parsing\<close>

lemma parse_result_dict_error:
  assumes "map_of d ''error'' = Some (PDict e)" and "e \<noteq> []"
  shows "parse_result (PDict d) =
           Inl (ProtocolError [dict_get e ''code'' (PStr ''''), dict_get e ''message'' (PStr ''''),
                               PDict d])"
  using assms by (simp add: parse_result_def dict_get_def dict_getitem_def)

lemma parse_result_no_error:
  assumes "\<forall>e. map_of d ''error'' = Some e \<longrightarrow> \<not> truthy e"
  shows "parse_result (PDict d) =
           (case map_of d ''result'' of
              None \<Rightarrow> Inl (ProtocolError [PStr ''Response without a result field''])
            | Some v \<Rightarrow> Inr v)"
  using assms
  by (auto simp: parse_result_def dict_get_def dict_getitem_def dict_contains_def
           split: option.splits)

lemma parse_result_not_dict:
  assumes "\<not> is_Mapping r"
  shows "parse_result r = Inl (ProtocolError [PStr ''Response is not a dictionary''])"
  using assms by (cases r) (simp_all add: parse_result_def)

lemma parse_result_not_mixing:
  "parse_result r \<noteq>
     Inl (ProtocolError [PStr ''JSON-RPC spec forbids mixing arguments and keyword arguments''])"
proof (cases r)
  case (PDict d)
  show ?thesis
  proof (cases "truthy (dict_get d ''error'' PNone)")
    case True
    then show ?thesis
      unfolding PDict parse_result_def
      by (cases "dict_getitem d ''error''"; cases "projr (dict_getitem d ''error'')")
         (auto simp: dict_getitem_def no_attribute_def split: option.splits)
  next
    case False
    then show ?thesis
      unfolding PDict parse_result_def
      by (auto simp: dict_getitem_def dict_contains_def split: option.splits)
  qed
qed (simp_all add: parse_result_def)

section \<open>Serializing and sending\<close>

lemma serialize_data_notification:
  assumes "truthy n"
  shows "serialize_data name params n w =
           ((''jsonrpc'', PStr ''2.0'') # (''method'', PStr name) #
              (if truthy params then [(''params'', params)] else []), w)"
  using assms by (simp add: serialize_data_def)

lemma serialize_data_call:
  assumes "\<not> truthy n"
  shows "serialize_data name params n w =
           ((''jsonrpc'', PStr ''2.0'') # (''method'', PStr name) #
              (if truthy params then [(''params'', params)] else []) @
              [(''id'', PInt (1 + int (shd (rng w)) mod sys_maxsize))],
            w\<lparr>rng := stl (rng w)\<rparr>)"
  using assms by (simp add: serialize_data_def randint_def)

lemma serialize_world:
  "snd (serialize self name params n w) = (if truthy n then w else w\<lparr>rng := stl (rng w)\<rparr>)"
  by (simp add: serialize_def serialize_data_notification serialize_data_call)

lemma send_request_events:
  "events w (snd (send_request self name n params w)) =
     Post (fst (serialize self name params n w)) #
       (case shd (net w) of
          Raises e \<Rightarrow> []
        | Returns r \<Rightarrow> (if status r = 200 \<and> \<not> truthy n then [Json] else []) @ [Release])"
  by (cases "serialize self name params n w")
     (use serialize_world [of self name params n w] in
      \<open>auto simp: events_def send_request_def request_def response_json_def response_release_def
            split: posted.splits raised.splits sum.splits option.splits prod.splits\<close>)

lemma send_request_rng:
  "rng (snd (send_request self name n params w)) = (if truthy n then rng w else stl (rng w))"
  by (cases "serialize self name params n w")
     (use serialize_world [of self name params n w] in
      \<open>auto simp: send_request_def request_def response_json_def response_release_def
            split: posted.splits raised.splits sum.splits option.splits prod.splits\<close>)

lemma send_request_not_mixing:
  "fst (send_request self name n params w) \<noteq>
     Inl (ProtocolError [PStr ''JSON-RPC spec forbids mixing arguments and keyword arguments''])"
  by (cases "serialize self name params n w")
     (auto simp: send_request_def request_def response_json_def response_release_def
                 parse_result_not_mixing
           split: posted.splits raised.splits sum.splits option.splits prod.splits)

section \<open>Dispatch\<close>


lemma Server_request_positional:
  assumes "args \<noteq> []"
  shows "Server_request self name args [(''_notification'', n)] w =
           send_request self name n (case args of [PDict m] \<Rightarrow> PDict m | _ \<Rightarrow> PTuple args) w"
  using assms
  by (auto simp: Server_request_def dict_pop_def split: list.splits pyval.splits)

lemma Server_request_positional_plain:
  assumes "args \<noteq> []"
  shows "Server_request self name args [] w =
           send_request self name (PBool False)
             (case args of [PDict m] \<Rightarrow> PDict m | _ \<Rightarrow> PTuple args) w"
  using assms
  by (auto simp: Server_request_def dict_pop_def split: list.splits pyval.splits)

lemma Server_request_keywords:
  assumes "''_notification'' \<notin> keys m"
  shows "Server_request self name [] m w = send_request self name (PBool False) (PDict m) w"
    and "Server_request self name [] (m @ [(''_notification'', n)]) w
           = send_request self name n (PDict m) w"
  using assms by (simp_all add: Server_request_def dict_pop_absent dict_pop_last)


section \<open>Proxies\<close>

lemma dict_contains_keys: "dict_contains d k \<longleftrightarrow> k \<in> keys d"
  by (simp add: dict_contains_def keys_def map_of_eq_None_iff)

lemma Method_call_bound:
  "''self'' \<notin> keys kwargs \<Longrightarrow>
     Method_call m args kwargs w = Method_request_method m (Method_method_name m) args kwargs w"
  by (simp add: Method_call_def dict_contains_keys)


lemma startswith_dotted:
  "\<not> startswith a ''_'' \<Longrightarrow> \<not> startswith (a @ CHR ''.'' # b) ''_''"
  by (cases a) (auto simp: startswith_def)

lemma dot_join_snoc: "dot_join ((a @ CHR ''.'' # b) # ss) = a @ CHR ''.'' # dot_join (b # ss)"
  by (cases ss) simp_all

lemma Method_names_private: "x \<in> set Method_names \<Longrightarrow> startswith x ''_''"
  by (auto simp: Method_names_def startswith_def)

lemma Method_getattribute_public:
  assumes "\<not> startswith (Method_method_name m) ''_''" and "\<not> startswith s ''_''" and "\<not> builtin s"
  shows "Method_getattribute builtin m s =
           Inr (Proxy \<lparr>Method_request_method = Method_request_method m,
                       Method_method_name = Method_method_name m @ ''.'' @ s\<rparr>)"
proof -
  from assms(2) have "s \<noteq> ''__call__''" and "s \<notin> set Method_names"
    using Method_names_private by (auto simp: startswith_def)
  with assms show ?thesis
    by (simp add: Method_getattribute_def Method_getattr_def Method_init_def startswith_dotted)
qed

lemma Method_getattribute_private:
  assumes "startswith s ''_''" and "\<not> builtin s" and "s \<notin> set Method_names"
  shows "Method_getattribute builtin m s = Inl (invalid_attribute s)"
proof -
  from assms(3) have "s \<noteq> ''__call__''" by (auto simp: Method_names_def)
  with assms show ?thesis
    by (simp add: Method_getattribute_def Method_getattr_def)
qed

lemma getattrs_dot_join:
  assumes "\<not> startswith (Method_method_name m) ''_''"
    and "\<forall>x\<in>set ss. \<not> startswith x ''_'' \<and> \<not> builtin x"
  shows "getattrs builtin (Proxy m) ss =
           Within (Inr (Proxy (m\<lparr>Method_method_name := dot_join (Method_method_name m # ss)\<rparr>)))"
  using assms
proof (induction ss arbitrary: m)
  case Nil
  then show ?case by simp
next
  case (Cons s ss)
  let ?m' = "\<lparr>Method_request_method = Method_request_method m,
              Method_method_name = Method_method_name m @ ''.'' @ s\<rparr>"
  have step: "Method_getattribute builtin m s = Inr (Proxy ?m')"
    using Cons.prems by (intro Method_getattribute_public) simp_all
  have "getattrs builtin (Proxy ?m') ss =
          Within (Inr (Proxy (?m'\<lparr>Method_method_name := dot_join (Method_method_name ?m' # ss)\<rparr>)))"
    using Cons.prems by (intro Cons.IH) (simp_all add: startswith_dotted)
  then show ?case
    by (simp add: step dot_join_snoc)
qed

lemma Server_getattribute_public:
  assumes "\<not> startswith s ''_''" and "\<not> builtin s" and "s \<notin> set Server_names"
  shows "Server_getattribute builtin self s =
           Inr (Proxy \<lparr>Method_request_method = Server_request self, Method_method_name = s\<rparr>)"
  using assms by (simp add: Server_getattribute_def Server_getattr_def Method_init_def)

lemma Server_getattribute_private:
  assumes "startswith s ''_''" and "\<not> builtin s" and "s \<notin> set Server_names"
  shows "Server_getattribute builtin self s = Inl (invalid_attribute s)"
  using assms by (simp add: Server_getattribute_def Server_getattr_def Method_init_def)

lemma proxy_dot_join:
  assumes "\<forall>x\<in>set (s # ss). \<not> startswith x ''_'' \<and> \<not> builtin x" and "s \<notin> set Server_names"
  shows "proxy builtin self s ss =
           Within (Inr (Proxy \<lparr>Method_request_method = Server_request self,
                               Method_method_name = dot_join (s # ss)\<rparr>))"
  using assms
  by (simp add: proxy_def Server_getattribute_public getattrs_dot_join del: dot_join.simps)

lemma getattrs_private:
  assumes "\<not> startswith (Method_method_name m) ''_''"
    and "\<forall>x\<in>set pre. \<not> startswith x ''_'' \<and> \<not> builtin x"
    and "startswith bad ''_''" and "\<not> builtin bad" and "bad \<notin> set Method_names"
  shows "getattrs builtin (Proxy m) (pre @ bad # post) = Within (Inl (invalid_attribute bad))"
  using assms(1,2)
proof (induction pre arbitrary: m)
  case Nil
  show ?case using assms(3-5) by (simp add: Method_getattribute_private)
next
  case (Cons s pre)
  let ?m' = "\<lparr>Method_request_method = Method_request_method m,
              Method_method_name = Method_method_name m @ ''.'' @ s\<rparr>"
  have step: "Method_getattribute builtin m s = Inr (Proxy ?m')"
    using Cons.prems by (intro Method_getattribute_public) simp_all
  have "getattrs builtin (Proxy ?m') (pre @ bad # post) = Within (Inl (invalid_attribute bad))"
    using Cons.prems by (intro Cons.IH) (simp_all add: startswith_dotted)
  then show ?case by (simp add: step)
qed

lemma proxy_private:
  assumes "s # ss = pre @ bad # post"
    and "\<forall>x\<in>set pre. \<not> startswith x ''_'' \<and> \<not> builtin x"
    and "pre \<noteq> [] \<longrightarrow> hd pre \<notin> set Server_names"
    and "startswith bad ''_''" and "\<not> builtin bad"
    and "bad \<notin> set (if pre = [] then Server_names else Method_names)"
  shows "proxy builtin self s ss = Within (Inl (invalid_attribute bad))"
proof (cases pre)
  case Nil
  with assms(1) have "s = bad" by simp
  with Nil assms(4-6) show ?thesis
    by (simp add: proxy_def Server_getattribute_private)
next
  case (Cons p pre')
  with assms(1) have s: "s = p" and ss: "ss = pre' @ bad # post" by simp_all
  from Cons assms(2,3) have p: "\<not> startswith p ''_''" "\<not> builtin p" "p \<notin> set Server_names"
    by simp_all
  from Cons assms(2) have pre': "\<forall>x\<in>set pre'. \<not> startswith x ''_'' \<and> \<not> builtin x" by simp
  from Cons assms(6) have bad: "bad \<notin> set Method_names" by simp
  have "getattrs builtin
          (Proxy \<lparr>Method_request_method = Server_request self, Method_method_name = p\<rparr>)
          (pre' @ bad # post) = Within (Inl (invalid_attribute bad))"
    using p(1) pre' assms(4,5) bad by (intro getattrs_private) simp_all
  then show ?thesis
    using p by (simp add: proxy_def s ss Server_getattribute_public)
qed


section \<open>What \<^verbatim>\<open>parse_result\<close> does with well-formed responses\<close>

text \<open>
  \<open>parse_result\<close> returns the value under \<^verbatim>\<open>'result'\<close> unchanged when the response is a
  mapping with that key and no truthy \<^verbatim>\<open>'error'\<close>; raises
  \<^verbatim>\<open>ProtocolError(code, message, response)\<close>, with \<^verbatim>\<open>''\<close> for an absent code or message,
  when the response is a mapping whose \<^verbatim>\<open>'error'\<close> is a non-empty mapping; raises
  \<^verbatim>\<open>ProtocolError('Response without a result field')\<close> when the response is a mapping
  with neither a truthy \<^verbatim>\<open>'error'\<close> nor a \<^verbatim>\<open>'result'\<close>; and raises
  \<^verbatim>\<open>ProtocolError('Response is not a dictionary')\<close> for every response that is not a
  mapping.
\<close>

lemma parse_result_cases:
  "(map_of d ''result'' = Some v \<and> (\<forall>e. map_of d ''error'' = Some e \<longrightarrow> \<not> truthy e)
      \<longrightarrow> parse_result (PDict d) = Inr v)
   \<and> (map_of d ''error'' = Some (PDict e) \<and> e \<noteq> []
      \<longrightarrow> parse_result (PDict d) =
            Inl (ProtocolError [dict_get e ''code'' (PStr ''''),
                                dict_get e ''message'' (PStr ''''), PDict d]))
   \<and> (map_of d ''result'' = None \<and> (\<forall>e. map_of d ''error'' = Some e \<longrightarrow> \<not> truthy e)
      \<longrightarrow> parse_result (PDict d) =
            Inl (ProtocolError [PStr ''Response without a result field'']))
   \<and> (\<not> is_Mapping r
      \<longrightarrow> parse_result r = Inl (ProtocolError [PStr ''Response is not a dictionary'']))"
  by (simp add: parse_result_dict_error parse_result_no_error parse_result_not_dict)

text \<open>The four examples of the specification, and an error object without a message.\<close>

lemma parse_result_examples:
  "parse_result (PDict [(''result'', PInt 42)]) = Inr (PInt 42)
   \<and> parse_result (PDict [(''error'', PDict [(''code'', PInt 1), (''message'', PStr ''bad'')])])
       = Inl (ProtocolError [PInt 1, PStr ''bad'',
               PDict [(''error'', PDict [(''code'', PInt 1), (''message'', PStr ''bad'')])]])
   \<and> parse_result (PDict [(''error'', PDict [(''code'', PInt 1)])])
       = Inl (ProtocolError [PInt 1, PStr '''', PDict [(''error'', PDict [(''code'', PInt 1)])]])
   \<and> parse_result (PDict []) = Inl (ProtocolError [PStr ''Response without a result field''])
   \<and> parse_result (PStr ''not-a-dict'') = Inl (ProtocolError [PStr ''Response is not a dictionary''])"
  using parse_result_cases [of "[(''result'', PInt 42)]" "PInt 42" "[]" PNone]
    parse_result_cases [of "[(''error'', PDict [(''code'', PInt 1), (''message'', PStr ''bad'')])]"
                           PNone "[(''code'', PInt 1), (''message'', PStr ''bad'')]" PNone]
    parse_result_cases [of "[(''error'', PDict [(''code'', PInt 1)])]" PNone "[(''code'', PInt 1)]" PNone]
    parse_result_cases [of "[]" PNone "[]" "PStr ''not-a-dict''"]
  by (simp add: dict_get_def)

section \<open>The claims\<close>

subsection \<open>C1: the four outcomes of \<^verbatim>\<open>parse_result\<close>\<close>

text \<open>
  C1 says that every mapping with a truthy \<^verbatim>\<open>'error'\<close> makes \<open>parse_result\<close> raise a
  \<^verbatim>\<open>ProtocolError\<close> with the error's code and message and the response. The code calls
  \<^verbatim>\<open>.get\<close> on the error value without looking at its type: on the response
  \<^verbatim>\<open>{"error": -32601}\<close> it raises \<^verbatim>\<open>AttributeError: 'int' object has no attribute 'get'\<close>.
  The other three outcomes of C1 are as it says.
\<close>

theorem parse_result_number_error:
  "parse_result (PDict [(''error'', PInt (- 32601))])
     = Inl (AttributeError (CHR 0x27 # ''int'' @ CHR 0x27 # '' object has no attribute ''
                            @ CHR 0x27 # ''get'' @ [CHR 0x27]))"
  by (simp add: parse_result_def dict_get_def dict_getitem_def no_attribute_def)

subsection \<open>C2: a malformed error object\<close>

text \<open>
  C2 asks that a mapping with a truthy \<^verbatim>\<open>'error'\<close> never makes \<open>parse_result\<close> raise
  anything but a \<^verbatim>\<open>ProtocolError\<close>, whatever the shape of the error value. The code
  calls \<^verbatim>\<open>.get\<close> on the value without looking at its type: on the response
  \<^verbatim>\<open>{"result": null, "error": "Method not found"}\<close>, the form of an error in JSON-RPC 1.0,
  it raises \<^verbatim>\<open>AttributeError: 'str' object has no attribute 'get'\<close>.
\<close>

theorem parse_result_string_error:
  "parse_result (PDict [(''result'', PNone), (''error'', PStr ''Method not found'')])
     = Inl (AttributeError (CHR 0x27 # ''str'' @ CHR 0x27 # '' object has no attribute ''
                            @ CHR 0x27 # ''get'' @ [CHR 0x27]))"
  by (simp add: parse_result_def dict_get_def dict_getitem_def no_attribute_def)

subsection \<open>C3: positional and keyword arguments together\<close>




subsection \<open>C4: notifications carry no id and read no body\<close>

text \<open>
  C4. When the notification flag is truthy, the dictionary that \<open>serialize\<close> encodes has
  no \<^verbatim>\<open>'id'\<close> key, \<open>send_request\<close> never calls \<^verbatim>\<open>response.json()\<close>, and the generator is
  left as it was. When the flag is falsy, the dictionary has an \<^verbatim>\<open>'id'\<close> that is the
  integer of \<open>[1, sys.maxsize]\<close> which \<^verbatim>\<open>random.randint(1, sys.maxsize)\<close> makes of the
  generator's next output in this call, and the call consumes that output: the next
  call draws from the output after it. In both cases the body posted is the encoding
  of that dictionary.
\<close>

theorem notification_envelope:
  "(truthy n \<longrightarrow>
      ''id'' \<notin> keys (fst (serialize_data name params n w))
      \<and> Json \<notin> set (events w (snd (send_request self name n params w)))
      \<and> snd (serialize_data name params n w) = w
      \<and> rng (snd (send_request self name n params w)) = rng w)
   \<and> (\<not> truthy n \<longrightarrow>
      map_of (fst (serialize_data name params n w)) ''id''
        = Some (PInt (fst (randint 1 sys_maxsize w)))
      \<and> 1 \<le> fst (randint 1 sys_maxsize w) \<and> fst (randint 1 sys_maxsize w) \<le> sys_maxsize
      \<and> fst (randint 1 sys_maxsize w) = 1 + int (shd (rng w)) mod sys_maxsize
      \<and> snd (serialize_data name params n w) = w\<lparr>rng := stl (rng w)\<rparr>
      \<and> rng (snd (send_request self name n params w)) = stl (rng w))
   \<and> hd (events w (snd (send_request self name n params w)))
        = Post (dumps self (PDict (fst (serialize_data name params n w))))"
proof (intro conjI impI)
  assume n: "truthy n"
  show "''id'' \<notin> keys (fst (serialize_data name params n w))"
    by (auto simp: serialize_data_notification [OF n] keys_def)
  show "Json \<notin> set (events w (snd (send_request self name n params w)))"
    by (simp add: send_request_events n split: posted.splits)
  show "snd (serialize_data name params n w) = w"
    by (simp add: serialize_data_notification [OF n])
  show "rng (snd (send_request self name n params w)) = rng w"
    by (simp add: send_request_rng n)
next
  assume n: "\<not> truthy n"
  show "map_of (fst (serialize_data name params n w)) ''id''
          = Some (PInt (fst (randint 1 sys_maxsize w)))"
    by (simp add: serialize_data_call [OF n] randint_def)
  show "1 \<le> fst (randint 1 sys_maxsize w)"
    by (simp add: randint_def sys_maxsize_def)
  show "fst (randint 1 sys_maxsize w) \<le> sys_maxsize"
    by (simp add: randint_def sys_maxsize_def)
  show "fst (randint 1 sys_maxsize w) = 1 + int (shd (rng w)) mod sys_maxsize"
    by (simp add: randint_def)
  show "snd (serialize_data name params n w) = w\<lparr>rng := stl (rng w)\<rparr>"
    by (simp add: serialize_data_call [OF n])
  show "rng (snd (send_request self name n params w)) = stl (rng w)"
    by (simp add: send_request_rng n)
next
  show "hd (events w (snd (send_request self name n params w)))
          = Post (dumps self (PDict (fst (serialize_data name params n w))))"
    by (simp add: send_request_events serialize_def split: prod.splits)
qed

text \<open>
  The notification \<^verbatim>\<open>log("hi")\<close>, and the call \<^verbatim>\<open>add(1)\<close> in a session whose generator makes
  7 and then 42: the call gets the id 7 and leaves the generator for the next call at 42.
\<close>

theorem notification_envelope_witness:
  "''id'' \<notin> keys (fst (serialize_data ''log'' (PTuple [PStr ''hi'']) (PBool True)
                          (session (sconst 6) (Returns (ok PNone)))))
   \<and> events (session (sconst 6) (Returns (ok PNone)))
        (snd (send_request plain ''log'' (PBool True) (PTuple [PStr ''hi''])
                (session (sconst 6) (Returns (ok PNone)))))
       = [Post (PDict [(''jsonrpc'', PStr ''2.0''), (''method'', PStr ''log''),
                       (''params'', PTuple [PStr ''hi''])]), Release]
   \<and> map_of (fst (serialize_data ''add'' (PTuple [PInt 1]) (PBool False)
                     (session (6 ## 41 ## sconst 0) (Returns (ok PNone))))) ''id'' = Some (PInt 7)
   \<and> rng (snd (send_request plain ''add'' (PBool False) (PTuple [PInt 1])
                  (session (6 ## 41 ## sconst 0) (Returns (ok PNone))))) = 41 ## sconst 0"
  using notification_envelope
          [of "PBool True" "''log''" "PTuple [PStr ''hi'']" "session (sconst 6) (Returns (ok PNone))" plain]
    notification_envelope
          [of "PBool False" "''add''" "PTuple [PInt 1]"
              "session (6 ## 41 ## sconst 0) (Returns (ok PNone))" plain]
  by (simp add: send_request_events serialize_def serialize_data_def session_def plain_def ok_def
                randint_def sys_maxsize_def)

subsection \<open>C5: one positional mapping against keyword arguments\<close>

text \<open>
  C5, as amended. For every mapping \<open>m\<close> that has neither the key \<^verbatim>\<open>'_notification'\<close> nor
  the key \<^verbatim>\<open>'self'\<close>, calling a proxy of a server with \<open>m\<close> as its only positional argument
  and calling it with the entries of \<open>m\<close> as keyword arguments do the same in the same
  world: same result, same body posted, same events. This holds without the
  notification flag and with the same flag passed to both.
\<close>

theorem mapping_argument_as_keywords:
  assumes "Method_request_method p = Server_request self"
    and "''_notification'' \<notin> keys m" and "''self'' \<notin> keys m"
  shows "Method_call p [PDict m] [] w = Method_call p [] m w
         \<and> Method_call p [PDict m] [(''_notification'', n)] w
             = Method_call p [] (m @ [(''_notification'', n)]) w"
proof -
  have "''self'' \<notin> keys []" and "''self'' \<notin> keys [(''_notification'', n)]"
    and "''self'' \<notin> keys (m @ [(''_notification'', n)])"
    using assms(3) by (auto simp: keys_def)
  then show ?thesis
    using assms
    by (simp add: Method_call_bound Server_request_positional Server_request_positional_plain
                  Server_request_keywords)
qed

text \<open>\<^verbatim>\<open>server.add({'a': 1, 'b': 2})\<close> and \<^verbatim>\<open>server.add(a=1, b=2)\<close>\<close>

theorem mapping_argument_as_keywords_witness:
  "Method_call (proxy_of plain ''add'') [PDict [(''a'', PInt 1), (''b'', PInt 2)]] []
        (session (sconst 6) (Returns (ok PNone)))
     = Method_call (proxy_of plain ''add'') [] [(''a'', PInt 1), (''b'', PInt 2)]
        (session (sconst 6) (Returns (ok PNone)))"
  using mapping_argument_as_keywords
          [of "proxy_of plain ''add''" plain "[(''a'', PInt 1), (''b'', PInt 2)]"
              "session (sconst 6) (Returns (ok PNone))"]
  by (simp add: proxy_of_def keys_def)

text \<open>
  C5 as stated fails for the mapping \<^verbatim>\<open>{'_notification': True}\<close>: passed positionally it
  is sent as the params of a call with an id, whose response is read; passed as keyword
  arguments it is taken for the flag, and a notification without params is sent.
\<close>

theorem mapping_with_notification_key:
  "trace (snd (Method_call (proxy_of plain ''add'') [PDict [(''_notification'', PBool True)]] []
                 (session (sconst 6) (Returns (ok (PDict [(''result'', PInt 3)]))))))
     = [Post (PDict [(''jsonrpc'', PStr ''2.0''), (''method'', PStr ''add''),
                     (''params'', PDict [(''_notification'', PBool True)]), (''id'', PInt 7)]),
        Json, Release]
   \<and> trace (snd (Method_call (proxy_of plain ''add'') [] [(''_notification'', PBool True)]
                 (session (sconst 6) (Returns (ok (PDict [(''result'', PInt 3)]))))))
     = [Post (PDict [(''jsonrpc'', PStr ''2.0''), (''method'', PStr ''add'')]), Release]"
  by (simp add: run_simps)

text \<open>
  The mapping \<^verbatim>\<open>{'self': 1}\<close> is sent as params when it is passed positionally; passed as
  keyword arguments it makes the call fail with a \<^verbatim>\<open>TypeError\<close>, and nothing is sent.
\<close>

lemma mapping_with_self_key:
  "trace (snd (Method_call (proxy_of plain ''add'') [PDict [(''self'', PInt 1)]] []
                 (session (sconst 6) (Returns (ok (PDict [(''result'', PInt 3)]))))))
     = [Post (PDict [(''jsonrpc'', PStr ''2.0''), (''method'', PStr ''add''),
                     (''params'', PDict [(''self'', PInt 1)]), (''id'', PInt 7)]),
        Json, Release]
   \<and> Method_call (proxy_of plain ''add'') [] [(''self'', PInt 1)]
        (session (sconst 6) (Returns (ok (PDict [(''result'', PInt 3)]))))
     = (Inl (multiple_values ''__call__'' ''self''),
        session (sconst 6) (Returns (ok (PDict [(''result'', PInt 3)]))))"
  by (simp add: run_simps)

subsection \<open>C6: the ids of a session\<close>

text \<open>
  C6, as amended. Each call that is not a notification draws its id afresh: the id is
  the integer that \<^verbatim>\<open>random.randint(1, sys.maxsize)\<close> makes of the generator's next
  output, and the call consumes that output, so the call after it gets the id made of
  the output after it. Two calls of a session have the same id exactly when the two
  draws are the same; that they differ is not guaranteed.
\<close>

theorem ids_are_draws:
  assumes "\<not> truthy n1" and "\<not> truthy n2"
  shows "map_of (fst (serialize_data name1 p1 n1 w)) ''id''
           = Some (PInt (1 + int (shd (rng w)) mod sys_maxsize))
         \<and> map_of (fst (serialize_data name2 p2 n2 (snd (send_request self name1 n1 p1 w)))) ''id''
           = Some (PInt (1 + int (shd (stl (rng w))) mod sys_maxsize))"
  using assms by (simp add: serialize_data_call send_request_rng)

text \<open>A generator whose outputs make 7 and then 42.\<close>

theorem ids_are_draws_witness:
  "map_of (fst (serialize_data ''add'' (PTuple [PInt 1]) (PBool False)
                  (session (6 ## 41 ## sconst 0) (Returns (ok PNone))))) ''id''
     = Some (PInt 7)
   \<and> map_of (fst (serialize_data ''sub'' (PTuple [PInt 2]) (PBool False)
        (snd (send_request plain ''add'' (PBool False) (PTuple [PInt 1])
           (session (6 ## 41 ## sconst 0) (Returns (ok PNone))))))) ''id''
     = Some (PInt 42)"
  using ids_are_draws
          [of "PBool False" "PBool False" "''add''" "PTuple [PInt 1]"
              "(session (6 ## 41 ## sconst 0) (Returns (ok PNone)))"
              "''sub''" "PTuple [PInt 2]" plain]
  by (simp add: sys_maxsize_def session_def)

text \<open>
  C6 as stated fails: when the generator makes 7 twice in a row, the calls
  \<^verbatim>\<open>server.add(1)\<close> and \<^verbatim>\<open>server.sub(2)\<close> of one session are both sent with the id 7.
\<close>

theorem same_id_twice:
  "trace (snd (Method_call (proxy_of plain ''sub'') [PInt 2] []
           (snd (Method_call (proxy_of plain ''add'') [PInt 1] []
              (session (sconst 6) (Returns (ok (PDict [(''result'', PInt 3)]))))))))
     = [Post (PDict [(''jsonrpc'', PStr ''2.0''), (''method'', PStr ''add''),
                     (''params'', PTuple [PInt 1]), (''id'', PInt 7)]), Json, Release,
        Post (PDict [(''jsonrpc'', PStr ''2.0''), (''method'', PStr ''sub''),
                     (''params'', PTuple [PInt 2]), (''id'', PInt 7)]), Json, Release]"
  by (simp add: run_simps)

subsection \<open>C7: the dispatched method name\<close>

text \<open>
  C7, as amended. For every chain of attribute accesses \<^verbatim>\<open>server.s.s1. ... .sn\<close> in which
  no segment starts with an underscore (or is a name that the interpreter puts on every
  object) and the first segment is not an attribute that the server has itself, the
  proxy built holds the segments joined with dots in the order of access, and calling
  it, without a keyword argument named \<^verbatim>\<open>self\<close>, is calling \<^verbatim>\<open>Server.__request\<close> with that
  name and the caller's arguments.
\<close>

theorem dispatched_name_is_dot_join:
  assumes "\<forall>x\<in>set (s # ss). \<not> startswith x ''_'' \<and> \<not> builtin x" and "s \<notin> set Server_names"
  shows "proxy builtin self s ss =
           Within (Inr (Proxy \<lparr>Method_request_method = Server_request self,
                               Method_method_name = dot_join (s # ss)\<rparr>))
         \<and> (''self'' \<notin> keys kwargs \<longrightarrow>
              call builtin self s ss args kwargs w =
                Within (Server_request self (dot_join (s # ss)) args kwargs w))"
  using assms
  by (simp add: call_def proxy_dot_join Method_call_bound del: dot_join.simps)

text \<open>\<^verbatim>\<open>server.math.vec.add(1, 2)\<close> posts a request for the method \<^verbatim>\<open>math.vec.add\<close>.\<close>

theorem dispatched_name_is_dot_join_witness:
  "proxy cpython plain ''math'' [''vec'', ''add''] = Within (Inr (Proxy (proxy_of plain ''math.vec.add'')))
   \<and> call cpython plain ''math'' [''vec'', ''add''] [PInt 1, PInt 2] []
         (session (sconst 6) (Returns (ok (PDict [(''result'', PInt 3)]))))
       = Within (Inr (PInt 3),
           \<lparr>rng = sconst 6, net = sconst (Returns (ok (PDict [(''result'', PInt 3)]))),
            trace = [Post (PDict [(''jsonrpc'', PStr ''2.0''), (''method'', PStr ''math.vec.add''),
                                  (''params'', PTuple [PInt 1, PInt 2]), (''id'', PInt 7)]),
                     Json, Release]\<rparr>)"
  using dispatched_name_is_dot_join
          [of "''math''" "[''vec'', ''add'']" cpython plain "[]" "[PInt 1, PInt 2]"
              "session (sconst 6) (Returns (ok (PDict [(''result'', PInt 3)])))"]
  by (simp add: startswith_def cpython_def Server_names_def keys_def proxy_of_def
                Server_request_def dict_pop_def send_request_def serialize_def
                serialize_data_def randint_def sys_maxsize_def request_def response_json_def
                response_release_def session_def plain_def ok_def parse_result_def dict_get_def
                dict_contains_def dict_getitem_def)

text \<open>
  C7 as stated fails: in \<^verbatim>\<open>server.rpc.__call__(1, 2)\<close> the segments accessed are \<^verbatim>\<open>rpc\<close> and
  \<^verbatim>\<open>__call__\<close>; the second is found on the proxy without the hook, and the method
  dispatched is \<^verbatim>\<open>rpc\<close>, not \<^verbatim>\<open>rpc.__call__\<close>.
\<close>

theorem bound_call_dispatches_owner:
  "call cpython plain ''rpc'' [''__call__''] [PInt 1, PInt 2] []
        (session (sconst 6) (Returns (ok (PDict [(''result'', PInt 3)]))))
     = Within (Inr (PInt 3),
         \<lparr>rng = sconst 6, net = sconst (Returns (ok (PDict [(''result'', PInt 3)]))),
          trace = [Post (PDict [(''jsonrpc'', PStr ''2.0''), (''method'', PStr ''rpc''),
                                (''params'', PTuple [PInt 1, PInt 2]), (''id'', PInt 7)]),
                   Json, Release]\<rparr>)"
  by (simp add: run_simps)

text \<open>
  A first segment that the server has itself gives that attribute, not a proxy:
  \<^verbatim>\<open>server.dumps\<close> is the encoder.
\<close>

lemma server_attribute_is_no_proxy:
  "proxy cpython plain ''dumps'' [] = Within (Inr (Other ''dumps''))"
  by (simp add: run_simps)

subsection \<open>C8: private segments\<close>

text \<open>
  C8, as amended. When the first segment of the chain that starts with an underscore
  is not an attribute that the object it is accessed on has itself (the server for the
  first segment of the chain, a proxy for a later one: the names that the source or the
  interpreter puts there), and the segments before it build a proxy, the access raises
  \<^verbatim>\<open>AttributeError("invalid attribute '<segment>'")\<close>, whether the segment is the first of the
  chain or a later one; the call is never made and the world is as it was, so nothing
  has been posted.
\<close>

theorem private_segment_rejected:
  assumes "s # ss = pre @ bad # post"
    and "\<forall>x\<in>set pre. \<not> startswith x ''_'' \<and> \<not> builtin x"
    and "pre \<noteq> [] \<longrightarrow> hd pre \<notin> set Server_names"
    and "startswith bad ''_''" and "\<not> builtin bad"
    and "bad \<notin> set (if pre = [] then Server_names else Method_names)"
  shows "proxy builtin self s ss = Within (Inl (invalid_attribute bad))
         \<and> call builtin self s ss args kwargs w = Within (Inl (invalid_attribute bad), w)"
  using proxy_private [OF assms, of self] by (simp add: call_def)

text \<open>\<^verbatim>\<open>server._secret.add\<close> and \<^verbatim>\<open>server.math._secret.add(1)\<close>\<close>

theorem private_segment_rejected_witness:
  "proxy cpython plain ''_secret'' [''add''] = Within (Inl (invalid_attribute ''_secret''))
   \<and> call cpython plain ''math'' [''_secret'', ''add''] [PInt 1] []
         (session (sconst 6) (Returns (ok PNone)))
       = Within (Inl (invalid_attribute ''_secret''), session (sconst 6) (Returns (ok PNone)))"
  using private_segment_rejected
          [where s = "''_secret''" and ss = "[''add'']" and pre = "[]" and bad = "''_secret''"
             and post = "[''add'']" and builtin = cpython and self = plain]
    private_segment_rejected
          [where s = "''math''" and ss = "[''_secret'', ''add'']" and pre = "[''math'']"
             and bad = "''_secret''" and post = "[''add'']" and builtin = cpython and self = plain
             and args = "[PInt 1]" and kwargs = "[]"
             and w = "session (sconst 6) (Returns (ok PNone))"]
  by (simp add: startswith_def cpython_def Server_names_def Method_names_def)

text \<open>
  C8 as stated fails: \<^verbatim>\<open>__call__\<close> starts with an underscore, yet \<^verbatim>\<open>server.math.__call__\<close> is
  the bound method of the proxy and raises nothing, and \<^verbatim>\<open>server.math.__call__(1)\<close> posts a
  request. Nor does \<^verbatim>\<open>server._Server__request\<close> raise.
\<close>

theorem underscore_segment_found:
  "proxy cpython plain ''math'' [''__call__''] = Within (Inr (Bound_call (proxy_of plain ''math'')))
   \<and> proxy cpython plain ''_Server__request'' [] = Within (Inr (Other ''_Server__request''))
   \<and> call cpython plain ''math'' [''__call__''] [PInt 1] []
         (session (sconst 6) (Returns (ok (PDict [(''result'', PInt 3)]))))
       = Within (Inr (PInt 3),
           \<lparr>rng = sconst 6, net = sconst (Returns (ok (PDict [(''result'', PInt 3)]))),
            trace = [Post (PDict [(''jsonrpc'', PStr ''2.0''), (''method'', PStr ''math''),
                                  (''params'', PTuple [PInt 1]), (''id'', PInt 7)]),
                     Json, Release]\<rparr>)"
  by (simp add: run_simps)

subsection \<open>C9: the response is released\<close>

text \<open>
  C9. Once the post has returned a response, \<open>send_request\<close> ends with exactly one call
  of \<^verbatim>\<open>response.release()\<close>, as its last event, whatever the status, the notification
  flag, the outcome of decoding the body and the outcome of \<open>parse_result\<close>: the events
  of the call are the post, then \<^verbatim>\<open>response.json()\<close> if the status is 200 and the call
  is not a notification, then the release.
\<close>

theorem response_released:
  assumes "shd (net w) = Returns r"
  shows "events w (snd (send_request self name n params w)) =
           Post (fst (serialize self name params n w)) #
             (if status r = 200 \<and> \<not> truthy n then [Json] else []) @ [Release]"
  using assms by (simp add: send_request_events)

text \<open>A body that is not JSON: the call fails with a \<^verbatim>\<open>TransportError\<close> after the release.\<close>

theorem response_released_witness:
  "send_request plain ''add'' (PBool False) (PTuple [PInt 1])
     (session (sconst 6)
        (Returns \<lparr>status = 200, reason = ''OK'', json = Inl (ValueError ''no JSON''),
                  release = None\<rparr>))
     = (Inl (TransportError (Cannot_deserialize (ValueError ''no JSON''))),
        \<lparr>rng = sconst 6,
         net = sconst (Returns \<lparr>status = 200, reason = ''OK'', json = Inl (ValueError ''no JSON''),
                                release = None\<rparr>),
         trace = [Post (PDict [(''jsonrpc'', PStr ''2.0''), (''method'', PStr ''add''),
                               (''params'', PTuple [PInt 1]), (''id'', PInt 7)]), Json, Release]\<rparr>)"
  using response_released
          [of "session (sconst 6)
                 (Returns \<lparr>status = 200, reason = ''OK'', json = Inl (ValueError ''no JSON''),
                           release = None\<rparr>)"
              "\<lparr>status = 200, reason = ''OK'', json = Inl (ValueError ''no JSON''), release = None\<rparr>"
              plain "''add''" "PBool False" "PTuple [PInt 1]"]
  by (simp add: send_request_def serialize_def serialize_data_def session_def plain_def
                randint_def sys_maxsize_def request_def response_json_def response_release_def)

subsection \<open>C10: the notification flag among positional arguments\<close>

text \<open>
  C10, as amended. A call with positional arguments whose only keyword argument is
  \<^verbatim>\<open>_notification\<close> does not raise the \<^verbatim>\<open>ProtocolError\<close> about mixed arguments: it sends
  the request with the keyword's value as the notification flag, and the params are the
  positional arguments alone (the only positional argument itself when that is a
  mapping, the tuple otherwise). The keyword adds nothing to the params.
\<close>

theorem notification_flag_not_forwarded:
  assumes "args \<noteq> []"
  shows "Server_request self name args [(''_notification'', n)] w
           = send_request self name n (case args of [PDict m] \<Rightarrow> PDict m | _ \<Rightarrow> PTuple args) w
         \<and> fst (Server_request self name args [(''_notification'', n)] w)
           \<noteq> Inl (ProtocolError
                    [PStr ''JSON-RPC spec forbids mixing arguments and keyword arguments''])"
  using assms by (simp add: Server_request_positional send_request_not_mixing)

text \<open>\<^verbatim>\<open>server.log("hi", _notification=True)\<close>\<close>

theorem notification_flag_not_forwarded_witness:
  "Server_request plain ''log'' [PStr ''hi''] [(''_notification'', PBool True)]
       (session (sconst 6) (Returns (ok PNone)))
     = (Inr PNone,
        \<lparr>rng = sconst 6, net = sconst (Returns (ok PNone)),
         trace = [Post (PDict [(''jsonrpc'', PStr ''2.0''), (''method'', PStr ''log''),
                               (''params'', PTuple [PStr ''hi''])]), Release]\<rparr>)"
  using notification_flag_not_forwarded
          [of "[PStr ''hi'']" plain "''log''" "PBool True" "session (sconst 6) (Returns (ok PNone))"]
  by (simp add: run_simps)

text \<open>
  C10 as stated fails: in \<^verbatim>\<open>server.log({'_notification': 1}, _notification=True)\<close> the
  only positional argument is a mapping, which becomes the params with its
  \<^verbatim>\<open>'_notification'\<close> key.
\<close>

theorem notification_key_in_params:
  "trace (snd (Server_request plain ''log'' [PDict [(''_notification'', PInt 1)]]
                 [(''_notification'', PBool True)] (session (sconst 6) (Returns (ok PNone)))))
     = [Post (PDict [(''jsonrpc'', PStr ''2.0''), (''method'', PStr ''log''),
                     (''params'', PDict [(''_notification'', PInt 1)])]), Release]"
  by (simp add: run_simps)

end
